theory Spec2Isabelle
  imports Complex_Main "HOL-Library.Sublist" "HOL-Library.AList"
begin

section \<open>Python values used by the email classifier\<close>

text \<open>
  The server in \<^verbatim>\<open>src/mcp_email_classifier/server.py\<close> works on Python \<^verbatim>\<open>str\<close> values.
  A \<^typ>\<open>string\<close> is read here as a sequence of code points U+0000 to U+00FF, one
  \<^typ>\<open>char\<close> per code point; every keyword of the source lies in that range
  (\<open>CHR 0xED\<close> is the accented i of the Spanish keyword). Floats are modelled as exact
  rationals. Console output (\<^verbatim>\<open>print\<close>) is not part of the model.
\<close>

datatype py_error = TypeError | IndexError | ZeroDivisionError | HTTPException nat py_error

text \<open>\<^verbatim>\<open>str.lower()\<close> on this range: A to Z and the accented capitals U+00C0 to U+00DE
  (the multiplication sign U+00D7 apart) move up by 32, every other code point stays.\<close>

definition lower_chr :: "char \<Rightarrow> char" where
  "lower_chr c =
     (let n = (of_char c :: nat)
      in if (65 \<le> n \<and> n \<le> 90) \<or> (192 \<le> n \<and> n \<le> 222 \<and> n \<noteq> 215)
         then char_of (n + 32) else c)"

definition lower :: "string \<Rightarrow> string" where
  "lower s = map lower_chr s"

text \<open>\<^verbatim>\<open>sub in s\<close> on strings: \<open>sub\<close> occurs in \<open>s\<close> as a contiguous block.\<close>

definition str_in :: "string \<Rightarrow> string \<Rightarrow> bool" where
  "str_in sub s = sublist sub s"

text \<open>\<^verbatim>\<open>s.split(sep)\<close> for a separator of one character: never the empty list.\<close>

fun split_chr :: "char \<Rightarrow> string \<Rightarrow> string list" where
  "split_chr sep [] = [[]]"
| "split_chr sep (c # cs) =
     (if c = sep then [] # split_chr sep cs
      else (case split_chr sep cs of
              [] \<Rightarrow> [[c]]
            | w # ws \<Rightarrow> (c # w) # ws))"

text \<open>\<^verbatim>\<open>xs[-1]\<close>: the last element, \<^verbatim>\<open>IndexError\<close> on the empty list.\<close>

definition index_last :: "'a list \<Rightarrow> py_error + 'a" where
  "index_last xs = (case xs of [] \<Rightarrow> Inl IndexError | _ # _ \<Rightarrow> Inr (last xs))"

text \<open>\<^verbatim>\<open>a / b\<close> on integers: true division, \<^verbatim>\<open>ZeroDivisionError\<close> when \<open>b\<close> is 0.\<close>

definition truediv :: "int \<Rightarrow> int \<Rightarrow> py_error + rat" where
  "truediv a b = (if b = 0 then Inl ZeroDivisionError else Inr (of_int a / of_int b))"

section \<open>The server object and its tool registry\<close>

datatype tool = Classify_email | Suggest_response | Extract_urgency | Analyze_sentiment

record MCPServer =
  name :: string
  tools :: "(string \<times> tool) list"

definition register_tool :: "MCPServer \<Rightarrow> string \<Rightarrow> tool \<Rightarrow> MCPServer" where
  "register_tool self nm function = self\<lparr>tools := AList.update nm function (tools self)\<rparr>"

definition register_tools :: "MCPServer \<Rightarrow> MCPServer" where
  "register_tools self =
     (let s1 = register_tool self ''classify_email'' Classify_email;
          s2 = register_tool s1 ''suggest_response'' Suggest_response;
          s3 = register_tool s2 ''extract_urgency'' Extract_urgency
      in register_tool s3 ''analyze_sentiment'' Analyze_sentiment)"

definition MCPServer_init :: "string \<Rightarrow> MCPServer" where
  "MCPServer_init nm = register_tools \<lparr>name = nm, tools = []\<rparr>"

definition mcp_server :: MCPServer where
  "mcp_server = MCPServer_init ''email-classifier''"

section \<open>Category classification\<close>

definition urgent_indicators :: "string list" where
  "urgent_indicators =
     [''urgent'', ''asap'', ''emergency'', ''cr'' @ [CHR 0xED] @ ''tico'', ''importante'',
      ''deadline'', ''hoy'']"

definition spam_indicators :: "string list" where
  "spam_indicators =
     [''offer'', ''win'', ''prize'', ''gratis'', ''descuento'', ''click here'', ''limited time'']"

definition newsletter_indicators :: "string list" where
  "newsletter_indicators = [''newsletter'', ''bulletin'', ''update'', ''digest'']"

definition support_indicators :: "string list" where
  "support_indicators = [''help'', ''soporte'', ''support'', ''problem'', ''issue'', ''error'']"

definition determine_category :: "MCPServer \<Rightarrow> string \<Rightarrow> string \<Rightarrow> string" where
  "determine_category self content sender =
     (if list_ex (\<lambda>indicator. str_in indicator content) urgent_indicators then ''URGENT''
      else if list_ex (\<lambda>indicator. str_in indicator content) spam_indicators then ''SPAM''
      else if list_ex (\<lambda>indicator. str_in indicator content) newsletter_indicators
        then ''NEWSLETTER''
      else if list_ex (\<lambda>indicator. str_in indicator content) support_indicators
        then ''SUPPORT''
      else if str_in ''newsletter'' (lower sender) then ''NEWSLETTER''
      else ''IMPORTANT'')"

text \<open>The dictionary \<^verbatim>\<open>strong_indicators\<close> with \<^verbatim>\<open>.get(category, [])\<close>.\<close>

definition strong_indicators :: "string \<Rightarrow> string list" where
  "strong_indicators category =
     (if category = ''URGENT'' then [''urgent'', ''asap'', ''emergency'']
      else if category = ''SPAM'' then [''win'', ''prize'', ''free'']
      else if category = ''NEWSLETTER'' then [''newsletter'', ''unsubscribe'']
      else if category = ''SUPPORT'' then [''help'', ''soporte'', ''problem'']
      else [])"

text \<open>The loop of \<^verbatim>\<open>_calculate_confidence\<close>, one step per strong indicator.\<close>

fun confidence_loop :: "string \<Rightarrow> string list \<Rightarrow> rat \<Rightarrow> rat" where
  "confidence_loop content [] base_confidence = base_confidence"
| "confidence_loop content (indicator # rest) base_confidence =
     confidence_loop content rest
       (if str_in indicator content then base_confidence + 15 / 100 else base_confidence)"

definition calculate_confidence :: "MCPServer \<Rightarrow> string \<Rightarrow> string \<Rightarrow> rat" where
  "calculate_confidence self content category =
     min (confidence_loop content (strong_indicators category) (7 / 10)) (95 / 100)"

record ClassificationResult =
  category :: string
  confidence :: rat
  analysis_time :: string
  sender_domain :: string

text \<open>\<open>now\<close> is the text of \<^verbatim>\<open>datetime.now().isoformat()\<close> at the time of the call.\<close>

definition classify_email ::
  "MCPServer \<Rightarrow> string \<Rightarrow> string \<Rightarrow> string \<Rightarrow> string \<Rightarrow> py_error + ClassificationResult" where
  "classify_email self now email_content sender subject =
     (let content_lower = lower (email_content @ '' '' @ subject);
          cat = determine_category self content_lower sender;
          conf = calculate_confidence self content_lower cat
      in if str_in ''@'' sender
         then (case index_last (split_chr CHR ''@'' sender) of
                 Inl e \<Rightarrow> Inl e
               | Inr d \<Rightarrow> Inr \<lparr>category = cat, confidence = conf, analysis_time = now,
                               sender_domain = d\<rparr>)
         else Inr \<lparr>category = cat, confidence = conf, analysis_time = now,
                   sender_domain = ''unknown''\<rparr>)"

section \<open>Response suggestion\<close>

text \<open>The nested dictionary \<^verbatim>\<open>responses\<close>, as an association list per category;
  \<open>CHR 0xE9\<close>, \<open>CHR 0xE1\<close> and \<open>CHR 0xA1\<close> are the accented e, the accented a and the
  inverted exclamation mark.\<close>

definition responses :: "(string \<times> (string \<times> string) list) list" where
  "responses =
     [(''URGENT'',
        [(''professional'',
            ''He recibido su mensaje urgente. Lo revisar'' @ [CHR 0xE9]
              @ '' inmediatamente y le responder'' @ [CHR 0xE9]
              @ '' en un plazo m'' @ [CHR 0xE1] @ ''ximo de 2 horas.''),
         (''friendly'',
            [CHR 0xA1] @ ''Gracias por el mensaje! Lo reviso ahora mismo y te respondo pronto.'')]),
      (''SUPPORT'',
        [(''professional'',
            ''Gracias por contactar a soporte. Hemos recibido su consulta y le asignaremos ''
              @ ''un ticket. Le responderemos en un plazo de 24 horas.''),
         (''friendly'',
            [CHR 0xA1] @ ''Hola! Recibimos tu consulta de soporte. Te ayudaremos lo antes posible.'')]),
      (''IMPORTANT'',
        [(''professional'',
            ''He recibido su mensaje. Lo revisar'' @ [CHR 0xE9] @ '' y le dar'' @ [CHR 0xE9]
              @ '' seguimiento apropiado durante el d'' @ [CHR 0xED] @ ''a.''),
         (''friendly'',
            [CHR 0xA1] @ ''Gracias por tu mensaje! Lo revisar'' @ [CHR 0xE9]
              @ '' hoy mismo y te respondo.'')]),
      (''NEWSLETTER'',
        [(''professional'',
            ''Gracias por la informaci'' @ [CHR 0xF3] @ ''n. La revisar'' @ [CHR 0xE9]
              @ '' cuando tenga disponibilidad.''),
         (''friendly'',
            [CHR 0xA1] @ ''Gracias por el newsletter! Lo leer'' @ [CHR 0xE9]
              @ '' cuando tenga un momento.'')])]"

text \<open>\<^verbatim>\<open>d.get(k, default)\<close> on a dictionary kept as an association list.\<close>

definition dict_get :: "('k \<times> 'v) list \<Rightarrow> 'k \<Rightarrow> 'v \<Rightarrow> 'v" where
  "dict_get d k dflt = (case map_of d k of None \<Rightarrow> dflt | Some v \<Rightarrow> v)"

record SuggestionResult =
  suggested_response :: string
  suggestion_category :: string
  tone :: string
  response_length :: nat

definition suggest_response :: "MCPServer \<Rightarrow> string \<Rightarrow> string \<Rightarrow> string \<Rightarrow> SuggestionResult" where
  "suggest_response self email_content cat tn =
     (let suggested =
            dict_get (dict_get responses cat []) tn
              (''He recibido su mensaje. Le responder'' @ [CHR 0xE9] @ '' pronto.'')
      in \<lparr>suggested_response = suggested, suggestion_category = cat, tone = tn,
          response_length = length suggested\<rparr>)"

section \<open>The date patterns of the urgency extractor\<close>

text \<open>
  The three patterns are sequences of character classes with a repetition range, between
  two word boundaries. \<open>Rep cls lo hi\<close> is a greedy repetition of the class \<open>cls\<close>,
  between \<open>lo\<close> and \<open>hi\<close> times (\<open>None\<close>: no upper limit).
\<close>

datatype re_item = Boundary | Rep "char \<Rightarrow> bool" nat "nat option"

definition is_digit :: "char \<Rightarrow> bool" where
  "is_digit c = (let n = (of_char c :: nat) in 48 \<le> n \<and> n \<le> 57)"

text \<open>\<^verbatim>\<open>[a-zA-Z]\<close>, also under \<^verbatim>\<open>re.IGNORECASE\<close> on this range of code points.\<close>

definition is_alpha :: "char \<Rightarrow> bool" where
  "is_alpha c = (let n = (of_char c :: nat) in (65 \<le> n \<and> n \<le> 90) \<or> (97 \<le> n \<and> n \<le> 122))"

text \<open>\<^verbatim>\<open>\w\<close> of a \<^verbatim>\<open>str\<close> pattern: the alphanumeric code points and the underscore.\<close>

definition is_word :: "char \<Rightarrow> bool" where
  "is_word c =
     (let n = (of_char c :: nat)
      in (48 \<le> n \<and> n \<le> 57) \<or> (65 \<le> n \<and> n \<le> 90) \<or> n = 95 \<or> (97 \<le> n \<and> n \<le> 122)
         \<or> n = 170 \<or> n = 178 \<or> n = 179 \<or> n = 181 \<or> n = 185 \<or> n = 186
         \<or> (188 \<le> n \<and> n \<le> 190) \<or> (192 \<le> n \<and> n \<le> 214) \<or> (216 \<le> n \<and> n \<le> 246)
         \<or> 248 \<le> n)"

text \<open>A literal character of the pattern, compared without case.\<close>

definition lit :: "char \<Rightarrow> re_item" where
  "lit c = Rep (\<lambda>x. lower_chr x = lower_chr c) 1 (Some 1)"

definition date_patterns :: "re_item list list" where
  "date_patterns =
     [[Boundary, Rep is_digit 1 (Some 2), lit CHR ''/'', Rep is_digit 1 (Some 2), lit CHR ''/'',
       Rep is_digit 4 (Some 4), Boundary],
      [Boundary, Rep is_digit 1 (Some 2), lit CHR ''-'', Rep is_digit 1 (Some 2), lit CHR ''-'',
       Rep is_digit 4 (Some 4), Boundary],
      [Boundary, Rep is_digit 1 (Some 2), lit CHR '' '', lit CHR ''d'', lit CHR ''e'',
       lit CHR '' '', Rep is_alpha 1 None, lit CHR '' '', lit CHR ''d'', lit CHR ''e'',
       lit CHR '' '', Rep is_digit 4 (Some 4), Boundary]]"

text \<open>\<^verbatim>\<open>\b\<close>: exactly one of the characters before and after the position is a word
  character; the start and the end of the text count as not a word character.\<close>

definition at_boundary :: "char option \<Rightarrow> string \<Rightarrow> bool" where
  "at_boundary prev s =
     ((case prev of None \<Rightarrow> False | Some c \<Rightarrow> is_word c)
        \<noteq> (case s of [] \<Rightarrow> False | c # _ \<Rightarrow> is_word c))"

text \<open>Backtracking over a greedy repetition: the longest count first, down to \<open>lo\<close>;
  \<open>k j\<close> matches the rest of the pattern after \<open>j\<close> repetitions.\<close>

fun try_counts :: "(nat \<Rightarrow> nat option) \<Rightarrow> nat \<Rightarrow> nat \<Rightarrow> nat option" where
  "try_counts k lo 0 = (if 0 < lo then None else k 0)"
| "try_counts k lo (Suc h) =
     (if Suc h < lo then None
      else (case k (Suc h) of
              Some n \<Rightarrow> Some (Suc h + n)
            | None \<Rightarrow> try_counts k lo h))"

text \<open>The length of the match of a pattern at the start of \<open>s\<close>, where \<open>prev\<close> is the
  character before it.\<close>

fun match_here :: "re_item list \<Rightarrow> char option \<Rightarrow> string \<Rightarrow> nat option" where
  "match_here [] prev s = Some 0"
| "match_here (Boundary # r) prev s = (if at_boundary prev s then match_here r prev s else None)"
| "match_here (Rep cls lo hi # r) prev s =
     (let run = length (takeWhile cls s);
          top = (case hi of None \<Rightarrow> run | Some h \<Rightarrow> min h run)
      in try_counts
           (\<lambda>j. match_here r (if j = 0 then prev else Some (s ! (j - 1))) (drop j s)) lo top)"

text \<open>\<^verbatim>\<open>re.findall\<close> for a pattern without groups: the matches from left to right, the
  search resuming where the last match ended. Each of the three patterns consumes at least
  eight characters, so the empty match is not a case here.\<close>

fun findall_from :: "re_item list \<Rightarrow> char option \<Rightarrow> string \<Rightarrow> string list" where
  "findall_from p prev [] = []"
| "findall_from p prev (c # cs) =
     (case match_here p prev (c # cs) of
        Some (Suc n) \<Rightarrow> take (Suc n) (c # cs) # findall_from p (Some ((c # cs) ! n)) (drop n cs)
      | _ \<Rightarrow> findall_from p (Some c) cs)"

definition findall :: "re_item list \<Rightarrow> string \<Rightarrow> string list" where
  "findall p s = findall_from p None s"

section \<open>Urgency extraction\<close>

definition urgency_keywords :: "string list" where
  "urgency_keywords =
     [''urgent'', ''asap'', ''emergency'', ''immediately'', ''now'', ''hoy'', ''inmediato'',
      ''cr'' @ [CHR 0xED] @ ''tico'']"

definition deadline_keywords :: "string list" where
  "deadline_keywords = [''deadline'', ''by'', ''before'', ''hasta'', ''para el'']"

text \<open>The two scoring loops: \<open>w\<close> is added for every keyword that occurs.\<close>

fun score_loop :: "string \<Rightarrow> int \<Rightarrow> string list \<Rightarrow> int \<Rightarrow> int" where
  "score_loop content_lower w [] urgency_score = urgency_score"
| "score_loop content_lower w (keyword # rest) urgency_score =
     score_loop content_lower w rest
       (if str_in keyword content_lower then urgency_score + w else urgency_score)"

record UrgencyResult =
  urgency_score :: int
  deadlines :: "string list"
  has_urgency :: bool
  urgency_level :: string

definition extract_urgency :: "MCPServer \<Rightarrow> string \<Rightarrow> UrgencyResult" where
  "extract_urgency self email_content =
     (let dates_found = concat (map (\<lambda>pattern. findall pattern email_content) date_patterns);
          content_lower = lower email_content;
          score = score_loop content_lower 2 deadline_keywords
                    (score_loop content_lower 1 urgency_keywords 0)
      in \<lparr>urgency_score = min score 10,
          deadlines = dates_found,
          has_urgency = (score > 0),
          urgency_level = (if score > 5 then ''HIGH'' else if score > 2 then ''MEDIUM''
                           else ''LOW'')\<rparr>)"

section \<open>Sentiment analysis\<close>

definition positive_words :: "string list" where
  "positive_words =
     [''gracias'', ''thanks'', ''excelente'', ''great'', ''good'', ''bueno'', ''aprecio'', ''feliz'']"

definition negative_words :: "string list" where
  "negative_words =
     [''problema'', ''problem'', ''error'', ''bad'', ''mal'', ''enojado'', ''angry'', ''frustrado'']"

text \<open>\<^verbatim>\<open>sum(1 for word in words if word in content_lower)\<close>.\<close>

definition count_hits :: "string list \<Rightarrow> string \<Rightarrow> int" where
  "count_hits words content_lower =
     sum_list (map (\<lambda>word. 1) (filter (\<lambda>word. str_in word content_lower) words))"

record SentimentResult =
  sentiment :: string
  positive_indicators :: int
  negative_indicators :: int
  sentiment_confidence :: rat

definition analyze_sentiment :: "MCPServer \<Rightarrow> string \<Rightarrow> py_error + SentimentResult" where
  "analyze_sentiment self email_content =
     (let content_lower = lower email_content;
          positive_count = count_hits positive_words content_lower;
          negative_count = count_hits negative_words content_lower;
          snt = (if positive_count > negative_count then ''POSITIVE''
                 else if negative_count > positive_count then ''NEGATIVE''
                 else ''NEUTRAL'')
      in (case truediv \<bar>positive_count - negative_count\<bar>
                 (max 1 (positive_count + negative_count)) of
            Inl e \<Rightarrow> Inl e
          | Inr q \<Rightarrow> Inr \<lparr>sentiment = snt, positive_indicators = positive_count,
                          negative_indicators = negative_count, sentiment_confidence = q\<rparr>))"

section \<open>The dispatcher and its HTTP endpoint\<close>

text \<open>
  What a tool returns is a dictionary; \<open>Error\<close> is the dictionary with the single key
  \<^verbatim>\<open>error\<close>. Keyword arguments are an association list from parameter names to strings,
  the type the signatures of the tools give every parameter.
\<close>

datatype tool_result =
    Classification ClassificationResult
  | Suggestion SuggestionResult
  | Urgency UrgencyResult
  | Sentiment SentimentResult
  | Error string

text \<open>The call \<^verbatim>\<open>self.tools[tool_name](**kwargs)\<close> of a bound method: a keyword that is no
  parameter of the method, or a parameter without default that is not given, is a
  \<^verbatim>\<open>TypeError\<close>.\<close>

fun invoke :: "MCPServer \<Rightarrow> string \<Rightarrow> tool \<Rightarrow> (string \<times> string) list \<Rightarrow> py_error + tool_result" where
  "invoke self now Classify_email kwargs =
     (if \<not> list_all (\<lambda>k. k \<in> set [''email_content'', ''sender'', ''subject'']) (map fst kwargs)
      then Inl TypeError
      else (case (map_of kwargs ''email_content'', map_of kwargs ''sender'',
                  map_of kwargs ''subject'') of
              (Some email_content, Some sender, Some subject) \<Rightarrow>
                (case classify_email self now email_content sender subject of
                   Inl e \<Rightarrow> Inl e
                 | Inr r \<Rightarrow> Inr (Classification r))
            | _ \<Rightarrow> Inl TypeError))"
| "invoke self now Suggest_response kwargs =
     (if \<not> list_all (\<lambda>k. k \<in> set [''email_content'', ''category'', ''tone'']) (map fst kwargs)
      then Inl TypeError
      else (case (map_of kwargs ''email_content'', map_of kwargs ''category'') of
              (Some email_content, Some cat) \<Rightarrow>
                Inr (Suggestion (suggest_response self email_content cat
                                   (dict_get kwargs ''tone'' ''professional'')))
            | _ \<Rightarrow> Inl TypeError))"
| "invoke self now Extract_urgency kwargs =
     (if \<not> list_all (\<lambda>k. k \<in> set [''email_content'']) (map fst kwargs)
      then Inl TypeError
      else (case map_of kwargs ''email_content'' of
              Some email_content \<Rightarrow> Inr (Urgency (extract_urgency self email_content))
            | None \<Rightarrow> Inl TypeError))"
| "invoke self now Analyze_sentiment kwargs =
     (if \<not> list_all (\<lambda>k. k \<in> set [''email_content'']) (map fst kwargs)
      then Inl TypeError
      else (case map_of kwargs ''email_content'' of
              Some email_content \<Rightarrow>
                (case analyze_sentiment self email_content of
                   Inl e \<Rightarrow> Inl e
                 | Inr r \<Rightarrow> Inr (Sentiment r))
            | None \<Rightarrow> Inl TypeError))"

text \<open>The method \<^verbatim>\<open>handle_request(self, tool_name, **kwargs)\<close>, called with \<open>tool_name\<close> in
  its position and \<open>kwargs\<close> as the keywords of the call. A keyword named \<^verbatim>\<open>self\<close> or
  \<^verbatim>\<open>tool_name\<close> gives a parameter of the method a second value: the call raises
  \<^verbatim>\<open>TypeError\<close> before the body runs. Every other keyword is collected in \<^verbatim>\<open>kwargs\<close>.\<close>

definition handle_request ::
  "MCPServer \<Rightarrow> string \<Rightarrow> string \<Rightarrow> (string \<times> string) list \<Rightarrow> py_error + tool_result" where
  "handle_request self now tool_name kwargs =
     (if list_ex (\<lambda>k. k \<in> set [''self'', ''tool_name'']) (map fst kwargs)
      then Inl TypeError
      else (case map_of (tools self) tool_name of
              Some function \<Rightarrow> invoke self now function kwargs
            | None \<Rightarrow> Inr (Error (''Tool '' @ tool_name @ '' not found''))))"

record ToolResponse =
  success :: bool
  result :: tool_result

text \<open>The endpoint \<^verbatim>\<open>POST /tools/{tool_name}\<close>: the body is passed on as the keywords of
  \<^verbatim>\<open>mcp_server.handle_request(tool_name, **request)\<close>, and every exception of that call
  becomes an \<^verbatim>\<open>HTTPException\<close> of status 500.\<close>

definition call_tool :: "string \<Rightarrow> string \<Rightarrow> (string \<times> string) list \<Rightarrow> py_error + ToolResponse" where
  "call_tool now tool_name request =
     (case handle_request mcp_server now tool_name request of
        Inl e \<Rightarrow> Inl (HTTPException 500 e)
      | Inr r \<Rightarrow> Inr \<lparr>success = True, result = r\<rparr>)"

text \<open>The keyword parameters in the signature of each tool (\<^verbatim>\<open>self\<close> is bound): those
  without a default, and those with one. A call is accepted when every key is a parameter and
  every parameter without default is among the keys.\<close>

definition required_params :: "tool \<Rightarrow> string list" where
  "required_params t =
     (case t of
        Classify_email \<Rightarrow> [''email_content'', ''sender'', ''subject'']
      | Suggest_response \<Rightarrow> [''email_content'', ''category'']
      | Extract_urgency \<Rightarrow> [''email_content'']
      | Analyze_sentiment \<Rightarrow> [''email_content''])"

definition optional_params :: "tool \<Rightarrow> string list" where
  "optional_params t = (case t of Suggest_response \<Rightarrow> [''tone''] | _ \<Rightarrow> [])"

definition keys_match :: "tool \<Rightarrow> (string \<times> string) list \<Rightarrow> bool" where
  "keys_match t kwargs =
     (list_all (\<lambda>k. k \<in> set (required_params t @ optional_params t)) (map fst kwargs)
      \<and> list_all (\<lambda>p. p \<in> set (map fst kwargs)) (required_params t))"

section \<open>Auxiliary facts\<close>

subsection \<open>Strings\<close>

lemma str_in_chr: "str_in [c] s \<longleftrightarrow> c \<in> set s"
  by (induction s) (auto simp: str_in_def sublist_Cons_right)

lemma lower_join: "lower (a @ CHR '' '' # b) = lower a @ CHR '' '' # lower b"
  by (simp add: lower_def lower_chr_def)

text \<open>A keyword without the separator that occurs in \<open>a + sp + b\<close> occurs in \<open>a\<close> or in
  \<open>b\<close>, hence also in \<open>b + sp + a\<close>.\<close>

lemma sublist_across_separator:
  assumes "sublist k (a @ [sp] @ b)" and "sp \<notin> set k"
  shows "sublist k a \<or> sublist k b"
proof -
  from assms(1) consider "sublist k a" | "sublist k (sp # b)"
    | xs1 xs2 where "k = xs1 @ xs2" "suffix xs1 a" "prefix xs2 (sp # b)"
    by (auto simp add: sublist_append)
  then show ?thesis
  proof cases
    case 1
    then show ?thesis by simp
  next
    case 2
    then have "prefix k (sp # b) \<or> sublist k b" by (simp add: sublist_Cons_right)
    then show ?thesis
    proof
      assume "prefix k (sp # b)"
      with assms(2) have "k = []" by (cases k) auto
      then show ?thesis by simp
    next
      assume "sublist k b"
      then show ?thesis by simp
    qed
  next
    case 3
    from 3(3) 3(1) assms(2) have "xs2 = []" by (cases xs2) auto
    with 3(1) 3(2) have "suffix k a" by simp
    then show ?thesis by simp
  qed
qed

lemma str_in_swap:
  assumes "str_in k (a @ sp # b)" and "sp \<notin> set k"
  shows "str_in k (b @ sp # a)"
proof -
  from assms have "sublist k a \<or> sublist k b"
    unfolding str_in_def using sublist_across_separator [of k a sp b] by simp
  then show ?thesis
  proof
    assume "sublist k a"
    then obtain ps ss where "a = ps @ k @ ss" by (auto simp add: sublist_def)
    then have "b @ sp # a = (b @ sp # ps) @ k @ ss" by simp
    then show ?thesis unfolding str_in_def sublist_def by blast
  next
    assume "sublist k b"
    then obtain ps ss where "b = ps @ k @ ss" by (auto simp add: sublist_def)
    then have "b @ sp # a = ps @ k @ (ss @ sp # a)" by simp
    then show ?thesis unfolding str_in_def sublist_def by blast
  qed
qed

subsection \<open>Splitting at a character\<close>

lemma split_chr_nonempty: "split_chr sep s \<noteq> []"
  by (induction s) (auto split: list.splits)

lemma split_chr_snoc:
  "sep \<notin> set t \<Longrightarrow> \<exists>ws. ws \<noteq> [] \<and> split_chr sep (pre @ sep # t) = ws @ [t]"
proof (induction pre)
  case Nil
  have "split_chr sep t = [t]" using Nil by (induction t) auto
  then have "[[]] \<noteq> [] \<and> split_chr sep ([] @ sep # t) = [[]] @ [t]" by simp
  then show ?case by blast
next
  case (Cons c pre)
  then obtain ws where ws: "ws \<noteq> []" "split_chr sep (pre @ sep # t) = ws @ [t]" by blast
  then obtain w ws' where w: "ws = w # ws'" by (cases ws) auto
  show ?case
  proof (cases "c = sep")
    case True
    with ws have "([] # ws) \<noteq> [] \<and> split_chr sep ((c # pre) @ sep # t) = ([] # ws) @ [t]"
      by simp
    then show ?thesis by blast
  next
    case False
    with ws w have "((c # w) # ws') \<noteq> []
        \<and> split_chr sep ((c # pre) @ sep # t) = ((c # w) # ws') @ [t]"
      by simp
    then show ?thesis by blast
  qed
qed

text \<open>The last piece is what follows the last separator.\<close>

lemma last_split_chr:
  assumes "sep \<in> set s"
  shows "\<exists>pre. s = pre @ [sep] @ last (split_chr sep s) \<and> sep \<notin> set (last (split_chr sep s))"
proof -
  from assms obtain pre t where s: "s = pre @ sep # t" "sep \<notin> set t"
    by (auto dest: split_list_last)
  from split_chr_snoc [OF s(2), of pre] s(1) have "last (split_chr sep s) = t" by auto
  with s show ?thesis by auto
qed

subsection \<open>The classifier\<close>

text \<open>\<^verbatim>\<open>classify_email\<close> always returns: the index \<^verbatim>\<open>[-1]\<close> is applied to a list that is never
  empty.\<close>

lemma classify_email_returns:
  "classify_email self now email_content sender subject =
     Inr \<lparr>category = determine_category self (lower (email_content @ '' '' @ subject)) sender,
          confidence = calculate_confidence self (lower (email_content @ '' '' @ subject))
             (determine_category self (lower (email_content @ '' '' @ subject)) sender),
          analysis_time = now,
          sender_domain = (if str_in ''@'' sender then last (split_chr CHR ''@'' sender)
                           else ''unknown'')\<rparr>"
  using split_chr_nonempty [of "CHR ''@''" sender]
  by (simp add: classify_email_def index_last_def Let_def split: list.splits)

lemma determine_category_closed:
  "determine_category self content sender
     \<in> {''URGENT'', ''SPAM'', ''NEWSLETTER'', ''SUPPORT'', ''IMPORTANT''}"
  by (simp add: determine_category_def)

lemma urgent_no_space: "k \<in> set urgent_indicators \<Longrightarrow> CHR '' '' \<notin> set k"
  by (auto simp add: urgent_indicators_def)

text \<open>No urgent indicator holds a space, so it occurs in subject, space, body exactly when it
  occurs in body, space, subject, the order in which \<^verbatim>\<open>classify_email\<close> joins them.\<close>

lemma urgent_hit_swap:
  assumes "list_ex (\<lambda>k. str_in k (lower (subject @ '' '' @ body))) urgent_indicators"
  shows "list_ex (\<lambda>k. str_in k (lower (body @ '' '' @ subject))) urgent_indicators"
proof -
  from assms obtain k where k: "k \<in> set urgent_indicators"
      "str_in k (lower subject @ CHR '' '' # lower body)"
    by (auto simp add: list_ex_iff lower_join)
  from k(2) urgent_no_space [OF k(1)] have "str_in k (lower body @ CHR '' '' # lower subject)"
    by (rule str_in_swap)
  with k(1) show ?thesis by (auto simp add: list_ex_iff lower_join)
qed

lemma confidence_loop_add:
  "confidence_loop c ks b = b + 15 / 100 * of_nat (length (filter (\<lambda>k. str_in k c) ks))"
  by (induction ks arbitrary: b) (simp_all add: algebra_simps)

subsection \<open>Urgency and sentiment\<close>

lemma score_loop_add:
  "score_loop c w ks acc = acc + w * int (length (filter (\<lambda>k. str_in k c) ks))"
  by (induction ks arbitrary: acc) (simp_all add: algebra_simps)

lemma count_hits_length:
  "count_hits ws c = int (length (filter (\<lambda>w. str_in w c) ws))"
  by (induction ws) (simp_all add: count_hits_def)

lemma ratio_bounds:
  fixes p n :: int
  assumes "0 \<le> p" "0 \<le> n"
  shows "0 \<le> (of_int \<bar>p - n\<bar> :: rat) / of_int (max 1 (p + n))"
    and "(of_int \<bar>p - n\<bar> :: rat) / of_int (max 1 (p + n)) \<le> 1"
proof -
  have pos: "(0::rat) < of_int (max 1 (p + n))" by simp
  show "0 \<le> (of_int \<bar>p - n\<bar> :: rat) / of_int (max 1 (p + n))"
    using pos by simp
  have "\<bar>p - n\<bar> \<le> max 1 (p + n)" using assms by linarith
  then have "(of_int \<bar>p - n\<bar> :: rat) \<le> of_int (max 1 (p + n))"
    by (simp only: of_int_le_iff)
  then show "(of_int \<bar>p - n\<bar> :: rat) / of_int (max 1 (p + n)) \<le> 1"
    using pos by (simp only: divide_le_eq_1_pos)
qed

text \<open>\<^verbatim>\<open>analyze_sentiment\<close> always returns: the divisor is at least 1.\<close>

lemma analyze_sentiment_returns:
  "analyze_sentiment self c =
     Inr \<lparr>sentiment =
            (if count_hits positive_words (lower c) > count_hits negative_words (lower c)
               then ''POSITIVE''
             else if count_hits negative_words (lower c) > count_hits positive_words (lower c)
               then ''NEGATIVE''
             else ''NEUTRAL''),
          positive_indicators = count_hits positive_words (lower c),
          negative_indicators = count_hits negative_words (lower c),
          sentiment_confidence =
            of_int \<bar>count_hits positive_words (lower c) - count_hits negative_words (lower c)\<bar>
              / of_int (max 1 (count_hits positive_words (lower c)
                               + count_hits negative_words (lower c)))\<rparr>"
proof -
  have "max 1 (count_hits positive_words (lower c) + count_hits negative_words (lower c)) \<noteq> 0"
    by linarith
  then show ?thesis
    by (simp add: analyze_sentiment_def truediv_def Let_def)
qed

subsection \<open>The dispatcher\<close>

lemma tools_init:
  "tools (MCPServer_init nm) =
     [(''classify_email'', Classify_email), (''suggest_response'', Suggest_response),
      (''extract_urgency'', Extract_urgency), (''analyze_sentiment'', Analyze_sentiment)]"
  by (simp add: MCPServer_init_def register_tools_def register_tool_def)

lemma map_of_missing: "k \<notin> fst ` set kwargs \<Longrightarrow> map_of kwargs k = None"
  by (simp add: map_of_eq_None_iff)

lemma invoke_mismatch: "\<not> keys_match t kwargs \<Longrightarrow> invoke self now t kwargs = Inl TypeError"
proof (cases t)
  case Classify_email
  assume "\<not> keys_match t kwargs"
  with Classify_email show ?thesis
    by (auto simp add: keys_match_def required_params_def optional_params_def list_all_iff
          dest!: map_of_missing split: option.splits)
next
  case Suggest_response
  assume "\<not> keys_match t kwargs"
  with Suggest_response show ?thesis
    by (auto simp add: keys_match_def required_params_def optional_params_def list_all_iff
          dest!: map_of_missing split: option.splits)
next
  case Extract_urgency
  assume "\<not> keys_match t kwargs"
  with Extract_urgency show ?thesis
    by (auto simp add: keys_match_def required_params_def optional_params_def list_all_iff
          dest!: map_of_missing split: option.splits)
next
  case Analyze_sentiment
  assume "\<not> keys_match t kwargs"
  with Analyze_sentiment show ?thesis
    by (auto simp add: keys_match_def required_params_def optional_params_def list_all_iff
          dest!: map_of_missing split: option.splits)
qed

section \<open>The category is one of five labels\<close>

text \<open>
  C1. For every body, sender and subject, \<^verbatim>\<open>classify_email\<close> returns a result, and its
  category (computed by \<^verbatim>\<open>_determine_category\<close>) is one of the five strings URGENT, SPAM,
  NEWSLETTER, SUPPORT and IMPORTANT; so it is never empty and never another value.
\<close>

theorem classify_email_category_closed:
  "\<exists>r. classify_email self now email_content sender subject = Inr r
       \<and> category r = determine_category self (lower (email_content @ '' '' @ subject)) sender
       \<and> category r \<in> {''URGENT'', ''SPAM'', ''NEWSLETTER'', ''SUPPORT'', ''IMPORTANT''}"
  using determine_category_closed by (simp add: classify_email_returns)

section \<open>Priority of the categories\<close>

text \<open>
  C2. \<^verbatim>\<open>_determine_category\<close> tries the indicator lists in the order URGENT, SPAM, NEWSLETTER,
  SUPPORT, then the sender that contains \<^verbatim>\<open>newsletter\<close>, then IMPORTANT, and the first
  match decides: a content with an urgent indicator is URGENT whatever else it contains, a
  content with a spam indicator and no urgent one is SPAM, and so on down the list. In
  particular, when the lower-cased subject, space, body contain an urgent and a spam
  indicator, \<^verbatim>\<open>classify_email\<close> answers URGENT.
\<close>

theorem determine_category_priority:
  "(list_ex (\<lambda>k. str_in k content) urgent_indicators \<longrightarrow>
      determine_category self content sender = ''URGENT'')
   \<and> (\<not> list_ex (\<lambda>k. str_in k content) urgent_indicators
        \<and> list_ex (\<lambda>k. str_in k content) spam_indicators \<longrightarrow>
      determine_category self content sender = ''SPAM'')
   \<and> (\<not> list_ex (\<lambda>k. str_in k content) (urgent_indicators @ spam_indicators)
        \<and> list_ex (\<lambda>k. str_in k content) newsletter_indicators \<longrightarrow>
      determine_category self content sender = ''NEWSLETTER'')
   \<and> (\<not> list_ex (\<lambda>k. str_in k content)
            (urgent_indicators @ spam_indicators @ newsletter_indicators)
        \<and> list_ex (\<lambda>k. str_in k content) support_indicators \<longrightarrow>
      determine_category self content sender = ''SUPPORT'')
   \<and> (\<not> list_ex (\<lambda>k. str_in k content)
            (urgent_indicators @ spam_indicators @ newsletter_indicators @ support_indicators)
        \<and> str_in ''newsletter'' (lower sender) \<longrightarrow>
      determine_category self content sender = ''NEWSLETTER'')
   \<and> (\<not> list_ex (\<lambda>k. str_in k content)
            (urgent_indicators @ spam_indicators @ newsletter_indicators @ support_indicators)
        \<and> \<not> str_in ''newsletter'' (lower sender) \<longrightarrow>
      determine_category self content sender = ''IMPORTANT'')
   \<and> (list_ex (\<lambda>k. str_in k (lower (subject @ '' '' @ body))) urgent_indicators
        \<and> list_ex (\<lambda>k. str_in k (lower (subject @ '' '' @ body))) spam_indicators \<longrightarrow>
      map_sum id category (classify_email self now body sender subject) = Inr ''URGENT'')"
proof -
  have "list_ex (\<lambda>k. str_in k (lower (subject @ '' '' @ body))) urgent_indicators \<Longrightarrow>
      map_sum id category (classify_email self now body sender subject) = Inr ''URGENT''"
    using urgent_hit_swap [of subject body]
    by (simp add: classify_email_returns determine_category_def)
  then show ?thesis
    by (simp add: determine_category_def)
qed

theorem determine_category_priority_witness:
  "determine_category mcp_server ''urgent: you win'' ''a@b.c'' = ''URGENT''
   \<and> determine_category mcp_server ''you win'' ''a@b.c'' = ''SPAM''
   \<and> determine_category mcp_server ''weekly digest'' ''a@b.c'' = ''NEWSLETTER''
   \<and> determine_category mcp_server ''login issue'' ''a@b.c'' = ''SUPPORT''
   \<and> determine_category mcp_server ''hello'' ''Newsletter@b.c'' = ''NEWSLETTER''
   \<and> determine_category mcp_server ''hello'' ''a@b.c'' = ''IMPORTANT''
   \<and> map_sum id category
        (classify_email mcp_server ''2024-05-12T10:00:00'' ''you win'' ''a@b.c'' ''Urgent'')
       = Inr ''URGENT''"
proof -
  have h1: "list_ex (\<lambda>k. str_in k ''urgent: you win'') urgent_indicators" by code_simp
  have h2: "\<not> list_ex (\<lambda>k. str_in k ''you win'') urgent_indicators
            \<and> list_ex (\<lambda>k. str_in k ''you win'') spam_indicators" by code_simp
  have h3: "\<not> list_ex (\<lambda>k. str_in k ''weekly digest'') (urgent_indicators @ spam_indicators)
            \<and> list_ex (\<lambda>k. str_in k ''weekly digest'') newsletter_indicators" by code_simp
  have h4: "\<not> list_ex (\<lambda>k. str_in k ''login issue'')
                 (urgent_indicators @ spam_indicators @ newsletter_indicators)
            \<and> list_ex (\<lambda>k. str_in k ''login issue'') support_indicators" by code_simp
  have h5: "\<not> list_ex (\<lambda>k. str_in k ''hello'')
                 (urgent_indicators @ spam_indicators @ newsletter_indicators @ support_indicators)
            \<and> str_in ''newsletter'' (lower ''Newsletter@b.c'')" by code_simp
  have h6: "\<not> list_ex (\<lambda>k. str_in k ''hello'')
                 (urgent_indicators @ spam_indicators @ newsletter_indicators @ support_indicators)
            \<and> \<not> str_in ''newsletter'' (lower ''a@b.c'')" by code_simp
  have h7: "list_ex (\<lambda>k. str_in k (lower (''Urgent'' @ '' '' @ ''you win''))) urgent_indicators
            \<and> list_ex (\<lambda>k. str_in k (lower (''Urgent'' @ '' '' @ ''you win''))) spam_indicators"
    by code_simp
  note t = determine_category_priority
  from h1 t [where content = "''urgent: you win''" and self = mcp_server and sender = "''a@b.c''"]
  have c1: "determine_category mcp_server ''urgent: you win'' ''a@b.c'' = ''URGENT''" by blast
  from h2 t [where content = "''you win''" and self = mcp_server and sender = "''a@b.c''"]
  have c2: "determine_category mcp_server ''you win'' ''a@b.c'' = ''SPAM''" by blast
  from h3 t [where content = "''weekly digest''" and self = mcp_server and sender = "''a@b.c''"]
  have c3: "determine_category mcp_server ''weekly digest'' ''a@b.c'' = ''NEWSLETTER''" by blast
  from h4 t [where content = "''login issue''" and self = mcp_server and sender = "''a@b.c''"]
  have c4: "determine_category mcp_server ''login issue'' ''a@b.c'' = ''SUPPORT''" by blast
  from h5 t [where content = "''hello''" and self = mcp_server and sender = "''Newsletter@b.c''"]
  have c5: "determine_category mcp_server ''hello'' ''Newsletter@b.c'' = ''NEWSLETTER''" by blast
  from h6 t [where content = "''hello''" and self = mcp_server and sender = "''a@b.c''"]
  have c6: "determine_category mcp_server ''hello'' ''a@b.c'' = ''IMPORTANT''" by blast
  from h7 t [where subject = "''Urgent''" and body = "''you win''" and self = mcp_server
              and now = "''2024-05-12T10:00:00''" and sender = "''a@b.c''"]
  have c7: "map_sum id category
        (classify_email mcp_server ''2024-05-12T10:00:00'' ''you win'' ''a@b.c'' ''Urgent'')
       = Inr ''URGENT''" by blast
  from c1 c2 c3 c4 c5 c6 c7 show ?thesis by blast
qed

section \<open>Urgency score, level and flag\<close>

text \<open>
  C3. For every content, the urgency score returned by \<^verbatim>\<open>extract_urgency\<close> lies between 0
  and 10; the level is HIGH exactly when the score exceeds 5, MEDIUM exactly when it is
  greater than 2 and at most 5, and LOW exactly when it is at most 2 (0 included); the flag
  \<^verbatim>\<open>has_urgency\<close> holds exactly when the score is positive.
\<close>

theorem extract_urgency_score_level:
  "0 \<le> urgency_score (extract_urgency self c) \<and> urgency_score (extract_urgency self c) \<le> 10
   \<and> (urgency_level (extract_urgency self c) = ''HIGH''
        \<longleftrightarrow> urgency_score (extract_urgency self c) > 5)
   \<and> (urgency_level (extract_urgency self c) = ''MEDIUM''
        \<longleftrightarrow> 2 < urgency_score (extract_urgency self c)
            \<and> urgency_score (extract_urgency self c) \<le> 5)
   \<and> (urgency_level (extract_urgency self c) = ''LOW''
        \<longleftrightarrow> urgency_score (extract_urgency self c) \<le> 2)
   \<and> (has_urgency (extract_urgency self c) \<longleftrightarrow> urgency_score (extract_urgency self c) > 0)"
  by (auto simp add: extract_urgency_def Let_def score_loop_add min_def)

section \<open>Confidence of a classification\<close>

text \<open>
  C4. For every content and every category, the confidence of \<^verbatim>\<open>_calculate_confidence\<close> is
  0.70 plus 0.15 for each strong indicator of the category that occurs in the content, capped
  at 0.95; so it lies between 0.70 and 0.95 however many indicators occur.
\<close>

theorem calculate_confidence_range:
  "calculate_confidence self content cat =
     min (7 / 10
          + 15 / 100 * of_nat (length (filter (\<lambda>k. str_in k content) (strong_indicators cat))))
         (95 / 100)
   \<and> 7 / 10 \<le> calculate_confidence self content cat
   \<and> calculate_confidence self content cat \<le> 95 / 100"
  by (simp add: calculate_confidence_def confidence_loop_add min_def)

section \<open>Keyword arguments that do not fit\<close>

text \<open>
  C5, as the code has it. For every registered tool and every keyword mapping whose keys do
  not fit the parameters of the tool (a key that is no parameter, or a parameter without
  default that is missing), \<^verbatim>\<open>handle_request\<close> raises \<^verbatim>\<open>TypeError\<close>: it returns no failure
  value. Its caller, the endpoint \<^verbatim>\<open>call_tool\<close>, catches the exception and raises an
  \<^verbatim>\<open>HTTPException\<close> of status 500 in its place.
\<close>

theorem handle_request_mismatch_raises:
  assumes "map_of (tools mcp_server) tool_name = Some t" and "\<not> keys_match t kwargs"
  shows "handle_request mcp_server now tool_name kwargs = Inl TypeError
         \<and> call_tool now tool_name kwargs = Inl (HTTPException 500 TypeError)"
  using assms by (simp add: handle_request_def call_tool_def invoke_mismatch)

theorem handle_request_mismatch_raises_witness:
  "handle_request mcp_server ''2024-05-12T10:00:00'' ''suggest_response''
       [(''email_content'', ''hi''), (''category'', ''URGENT''), (''mood'', ''calm'')]
     = Inl TypeError
   \<and> call_tool ''2024-05-12T10:00:00'' ''suggest_response''
       [(''email_content'', ''hi''), (''category'', ''URGENT''), (''mood'', ''calm'')]
     = Inl (HTTPException 500 TypeError)
   \<and> handle_request mcp_server ''2024-05-12T10:00:00'' ''analyze_sentiment'' [] = Inl TypeError
   \<and> call_tool ''2024-05-12T10:00:00'' ''analyze_sentiment'' []
     = Inl (HTTPException 500 TypeError)"
proof -
  have a: "map_of (tools mcp_server) ''suggest_response'' = Some Suggest_response"
    and b: "map_of (tools mcp_server) ''analyze_sentiment'' = Some Analyze_sentiment"
    by (simp_all add: mcp_server_def tools_init)
  have c: "\<not> keys_match Suggest_response
               [(''email_content'', ''hi''), (''category'', ''URGENT''), (''mood'', ''calm'')]"
    and d: "\<not> keys_match Analyze_sentiment []"
    by (simp_all add: keys_match_def required_params_def optional_params_def)
  from handle_request_mismatch_raises [OF a c] handle_request_mismatch_raises [OF b d]
  show ?thesis by simp
qed

text \<open>The stronger reading of C5, that \<^verbatim>\<open>handle_request\<close> itself returns a failure
  result, does not hold: \<^verbatim>\<open>extract_urgency\<close> called without its parameter raises.\<close>

theorem handle_request_missing_key_raises:
  "handle_request mcp_server ''2024-05-12T10:00:00'' ''extract_urgency'' [] = Inl TypeError"
  by (simp add: handle_request_def mcp_server_def tools_init)

section \<open>Unknown tools\<close>




section \<open>Sentiment without a majority\<close>

text \<open>
  C7. For every content, \<^verbatim>\<open>analyze_sentiment\<close> returns (the division never fails, its
  divisor being at least 1), the two counts are the numbers of positive and of negative
  words that occur in the lower-cased content, and the confidence is the absolute difference
  of the counts over the larger of 1 and their sum, a value between 0 and 1. When the counts
  are equal, zero or not, the sentiment is NEUTRAL and the confidence is 0; when no positive
  and no negative word occurs, both counts are 0, so the sentiment is NEUTRAL with
  confidence 0.
\<close>

theorem analyze_sentiment_neutral:
  "\<exists>r. analyze_sentiment self c = Inr r
     \<and> positive_indicators r = int (length (filter (\<lambda>w. str_in w (lower c)) positive_words))
     \<and> negative_indicators r = int (length (filter (\<lambda>w. str_in w (lower c)) negative_words))
     \<and> sentiment_confidence r =
         of_int \<bar>positive_indicators r - negative_indicators r\<bar>
           / of_int (max 1 (positive_indicators r + negative_indicators r))
     \<and> 0 \<le> sentiment_confidence r \<and> sentiment_confidence r \<le> 1
     \<and> (positive_indicators r = negative_indicators r \<longrightarrow>
          sentiment r = ''NEUTRAL'' \<and> sentiment_confidence r = 0)
     \<and> (\<not> list_ex (\<lambda>w. str_in w (lower c)) (positive_words @ negative_words) \<longrightarrow>
          positive_indicators r = 0 \<and> negative_indicators r = 0
          \<and> sentiment r = ''NEUTRAL'' \<and> sentiment_confidence r = 0)"
proof -
  let ?p = "count_hits positive_words (lower c)"
  let ?n = "count_hits negative_words (lower c)"
  have p: "?p = int (length (filter (\<lambda>w. str_in w (lower c)) positive_words))"
    and n: "?n = int (length (filter (\<lambda>w. str_in w (lower c)) negative_words))"
    by (simp_all only: count_hits_length)
  have p0: "0 \<le> ?p" and n0: "0 \<le> ?n" by (simp_all only: count_hits_length of_nat_0_le_iff)
  have zero: "\<not> list_ex (\<lambda>w. str_in w (lower c)) (positive_words @ negative_words)
      \<Longrightarrow> ?p = 0 \<and> ?n = 0"
    by (simp add: count_hits_length list_ex_iff filter_empty_conv)
  show ?thesis
    unfolding analyze_sentiment_returns
    using ratio_bounds [OF p0 n0] p n zero by auto
qed

theorem analyze_sentiment_neutral_witness:
  "map_sum id
     (\<lambda>r. (sentiment r, positive_indicators r, negative_indicators r, sentiment_confidence r))
     (analyze_sentiment mcp_server ''Thanks, an error'') = Inr (''NEUTRAL'', 1, 1, 0)
   \<and> map_sum id
       (\<lambda>r. (sentiment r, positive_indicators r, negative_indicators r, sentiment_confidence r))
       (analyze_sentiment mcp_server ''See you'') = Inr (''NEUTRAL'', 0, 0, 0)"
proof -
  have a: "int (length (filter (\<lambda>w. str_in w (lower ''Thanks, an error'')) positive_words)) = 1"
    "int (length (filter (\<lambda>w. str_in w (lower ''Thanks, an error'')) negative_words)) = 1"
    by code_simp+
  have b: "\<not> list_ex (\<lambda>w. str_in w (lower ''See you'')) (positive_words @ negative_words)"
    by code_simp
  show ?thesis
    using analyze_sentiment_neutral [of mcp_server "''Thanks, an error''"]
          analyze_sentiment_neutral [of mcp_server "''See you''"] a b
    by auto
qed

section \<open>The domain of the sender\<close>

text \<open>
  C8, as the code has it. For every sender, \<^verbatim>\<open>classify_email\<close> returns: computing the domain
  raises nothing. When the sender holds no \<^verbatim>\<open>@\<close>, the domain is \<^verbatim>\<open>unknown\<close>; when it holds
  one, the domain is the text after the last \<^verbatim>\<open>@\<close>, which is the empty string when the
  sender ends in \<^verbatim>\<open>@\<close>.
\<close>

theorem sender_domain_after_last_at:
  "\<exists>r. classify_email self now email_content sender subject = Inr r
     \<and> (\<not> str_in ''@'' sender \<longrightarrow> sender_domain r = ''unknown'')
     \<and> (str_in ''@'' sender \<longrightarrow>
          (\<exists>pre. sender = pre @ ''@'' @ sender_domain r) \<and> CHR ''@'' \<notin> set (sender_domain r))"
  using last_split_chr [of "CHR ''@''" sender]
  by (auto simp add: classify_email_returns str_in_chr)

theorem sender_domain_after_last_at_witness:
  "map_sum id sender_domain
     (classify_email mcp_server ''2024-05-12T10:00:00'' ''hello'' ''ceo@company.com'' ''hi'')
     = Inr ''company.com''
   \<and> map_sum id sender_domain
       (classify_email mcp_server ''2024-05-12T10:00:00'' ''hello'' ''nobody'' ''hi'')
     = Inr ''unknown''"
  using sender_domain_after_last_at
          [of mcp_server "''2024-05-12T10:00:00''" "''hello''" "''ceo@company.com''" "''hi''"]
        sender_domain_after_last_at
          [of mcp_server "''2024-05-12T10:00:00''" "''hello''" "''nobody''" "''hi''"]
  by (auto simp add: classify_email_returns str_in_chr)

text \<open>The stronger reading of C8, that the domain is \<^verbatim>\<open>unknown\<close> whenever nothing
  follows the \<^verbatim>\<open>@\<close>, does not hold: for a sender that ends in \<^verbatim>\<open>@\<close> the domain is the
  empty string.\<close>

theorem sender_domain_trailing_at:
  "map_sum id sender_domain
     (classify_email mcp_server ''2024-05-12T10:00:00'' ''hello'' ''user@'' ''hi'') = Inr []
   \<and> map_sum id sender_domain
       (classify_email mcp_server ''2024-05-12T10:00:00'' ''hello'' ''user@'' ''hi'')
     \<noteq> Inr ''unknown''"
  by (simp add: classify_email_returns str_in_chr)

section \<open>Determinism\<close>

text \<open>
  C9. The four triage functions read neither the server object nor, \<^verbatim>\<open>analysis_time\<close>
  apart, the clock: called on the same arguments with any two server states and at any two
  times, \<^verbatim>\<open>classify_email\<close> gives results that differ in \<^verbatim>\<open>analysis_time\<close> alone, and
  \<^verbatim>\<open>suggest_response\<close>, \<^verbatim>\<open>extract_urgency\<close> and \<^verbatim>\<open>analyze_sentiment\<close> give the same result.
\<close>

theorem triage_deterministic:
  "classify_email self2 now2 email_content sender subject =
     map_sum id (\<lambda>r. r\<lparr>analysis_time := now2\<rparr>)
       (classify_email self1 now1 email_content sender subject)
   \<and> suggest_response self2 email_content cat tn = suggest_response self1 email_content cat tn
   \<and> extract_urgency self2 email_content = extract_urgency self1 email_content
   \<and> analyze_sentiment self2 email_content = analyze_sentiment self1 email_content"
  by (simp add: classify_email_returns determine_category_def calculate_confidence_def
        suggest_response_def extract_urgency_def analyze_sentiment_def)

section \<open>Keywords match inside words\<close>

text \<open>
  C10. Keyword matching in \<^verbatim>\<open>extract_urgency\<close> is containment, not word matching: the content
  \<^verbatim>\<open>baby\<close> is no keyword, the only keyword that occurs in it is the deadline keyword \<^verbatim>\<open>by\<close>,
  and the result has urgency score 2 and \<^verbatim>\<open>has_urgency\<close> true.
\<close>

theorem extract_urgency_baby:
  "urgency_score (extract_urgency self ''baby'') = 2
   \<and> has_urgency (extract_urgency self ''baby'')
   \<and> filter (\<lambda>k. str_in k (lower ''baby'')) (urgency_keywords @ deadline_keywords) = [''by'']
   \<and> ''baby'' \<notin> set (urgency_keywords @ deadline_keywords)"
  by code_simp

end
